theory Spec2Isabelle
  imports Complex_Main "HOL-Library.Multiset"
begin

section \<open>Values shared by the pipeline and the scheduler\<close>

text \<open>
  The repository holds a staged content pipeline (class \<open>SpacePipeline\<close>, present in an
  earlier and a later revision), a scheduler that gates and invokes it (\<open>scheduler.js\<close>)
  and a small news server. The pipeline is embedded as state-passing functions over one
  record, \<open>world\<close>, that holds the pipeline object (\<open>results\<close>, \<open>config\<close>), the files it
  writes and the host it runs on: the clock, \<open>Math.random\<close>, the environment variables and
  the replies of the HTTP collaborators.

  Conventions of the embedding:
  \<^item> a timestamp is the millisecond count of a \<open>Date\<close>; the ISO-8601 text that
    \<open>toISOString\<close> produces and \<open>new Date(text)\<close> reads back stands for the same number;
  \<^item> JavaScript numbers are exact rationals; \<open>Math.round\<close> and \<open>Math.floor\<close> are the
    integer functions of that name;
  \<^item> a thrown \<open>Error\<close> is the value \<open>Error message\<close>; a function that can throw returns
    a sum with \<open>Inl\<close> for the throw;
  \<^item> a collaborator's JSON is read through the properties the code reads, with texts
    and arrays at the leaves; a leaf of another type, and a \<open>published\<close> text that
    \<open>Date\<close> cannot parse, are outside the model;
  \<^item> writing a file succeeds, and console output is not part of the model.
\<close>

datatype exn = Error string

fun message :: "exn \<Rightarrow> string" where
  "message (Error m) = m"

text \<open>Detail values of a step record: the JSON-like values the stages put there.\<close>

datatype dval =
    DNum rat
  | DStr string
  | DBool bool
  | DList "dval list"
  | DObj "(string \<times> dval) list"

record step_log =
  step :: string
  timestamp :: int
  success :: bool
  details :: "(string \<times> dval) list"

record outputs =
  script :: string
  media_count :: nat
  audio_duration :: rat
  video_file :: string
  video_url :: string

record run_record =
  workflow_id :: string
  start_time :: int
  steps :: "step_log list"
  status :: string
  end_time :: "int option"
  total_duration_seconds :: "rat option"
  final_outputs :: "outputs option"
  error :: "string option"

record config =
  tts_openai_api_key :: string
  pexels_api_key :: string
  unsplash_access_key :: string
  nasa_api_key :: string

subsection \<open>Text helpers\<close>

definition newline :: char where
  "newline = CHR 0x0A"

definition digit :: "nat \<Rightarrow> char" where
  "digit d = ''0123456789'' ! (d mod 10)"

text \<open>Decimal text of a natural number, as a template literal prints an index or a status.\<close>

function show_nat :: "nat \<Rightarrow> string" where
  "show_nat n = (if n < 10 then [digit n] else show_nat (n div 10) @ [digit n])"
  by pat_completeness auto
termination
  by (relation "measure (\<lambda>n. n)") auto

declare show_nat.simps [simp del]

definition show_int :: "int \<Rightarrow> string" where
  "show_int i = (if i < 0 then CHR ''-'' # show_nat (nat (- i)) else show_nat (nat i))"

text \<open>
  \<open>Math.round\<close> rounds to the nearest integer, a half towards plus infinity;
  \<open>Math.round(x * 10) / 10\<close> keeps one decimal.
\<close>

definition math_round :: "rat \<Rightarrow> int" where
  "math_round x = \<lfloor>x + 1 / 2\<rfloor>"

definition round1 :: "rat \<Rightarrow> rat" where
  "round1 x = of_int (math_round (x * 10)) / 10"

definition round2 :: "rat \<Rightarrow> rat" where
  "round2 x = of_int (math_round (x * 100)) / 100"

text \<open>The text of a number with at most one decimal, \<open>n / 10\<close>, for \<open>n \<ge> 0\<close>.\<close>

definition show_tenths :: "int \<Rightarrow> string" where
  "show_tenths n =
     (if n mod 10 = 0 then show_int (n div 10)
      else show_int (n div 10) @ ''.'' @ show_nat (nat (n mod 10)))"

text \<open>
  \<open>s.split(c)\<close> for a one-character separator: the pieces between the occurrences of
  \<open>c\<close>, empty pieces included, so the result has one piece more than \<open>s\<close> has separators.
\<close>

fun split :: "char \<Rightarrow> string \<Rightarrow> string list" where
  "split c [] = [[]]"
| "split c (x # xs) =
     (if x = c then [] # split c xs
      else (case split c xs of [] \<Rightarrow> [[x]] | p # ps \<Rightarrow> (x # p) # ps))"

text \<open>\<open>s.includes(sub)\<close>: \<open>sub\<close> occurs in \<open>s\<close> as a contiguous piece.\<close>

fun str_includes :: "string \<Rightarrow> string \<Rightarrow> bool" where
  "str_includes [] sub = (sub = [])"
| "str_includes (x # xs) sub = (take (length sub) (x # xs) = sub \<or> str_includes xs sub)"

text \<open>\<open>xs[i]\<close> on an array of strings inside a concatenation: out of range reads
  \<open>undefined\<close>, which concatenates as the text \<open>undefined\<close>.\<close>

definition at_index :: "string list \<Rightarrow> int \<Rightarrow> string" where
  "at_index xs i = (if 0 \<le> i \<and> i < int (length xs) then xs ! nat i else ''undefined'')"

text \<open>
  The whitespace-delimited tokens of a text, as the specification counts words: maximal
  runs of characters other than space, tab, line feed and carriage return.
\<close>

definition is_space :: "char \<Rightarrow> bool" where
  "is_space c = (c = CHR '' '' \<or> c = CHR 0x0A \<or> c = CHR 0x09 \<or> c = CHR 0x0D)"

fun tokens_from :: "string \<Rightarrow> string \<Rightarrow> string list" where
  "tokens_from cur [] = (if cur = [] then [] else [cur])"
| "tokens_from cur (x # xs) =
     (if is_space x then (if cur = [] then tokens_from [] xs else cur # tokens_from [] xs)
      else tokens_from (cur @ [x]) xs)"

definition whitespace_tokens :: "string \<Rightarrow> string list" where
  "whitespace_tokens s = tokens_from [] s"

section \<open>The HTTP client\<close>

text \<open>
  What the transport delivers for one request. The decoded body has the type \<open>'d\<close> of the
  payload the calling stage reads; \<open>Text\<close> is a body that \<open>JSON.parse\<close> rejects.
  \<^item> \<open>RequestError m\<close>: the request emits \<open>error\<close> with message \<open>m\<close>;
  \<^item> \<open>RequestTimeout\<close>: nothing arrives from the collaborator in time;
  \<^item> \<open>Response code statusMessage body\<close>: a response whose body arrives complete
    (\<open>code\<close> is \<open>None\<close> when \<open>statusCode\<close> is not a number);
  \<^item> \<open>ResponseBroken code statusMessage m\<close>: a response whose stream emits \<open>error\<close>
    with message \<open>m\<close> before its end.
\<close>

datatype 'd body = Json 'd | Text string

datatype 'd transport =
    RequestError string
  | RequestTimeout
  | Response "nat option" string "'d body"
  | ResponseBroken "nat option" string string

record 'd response =
  http_status :: "nat option"
  http_data :: "'d body"

text \<open>\<open>makeHttpRequest\<close> of the later revision: 30 s timeout, statuses from 400 rejected.\<close>

definition http_error :: "nat \<Rightarrow> string \<Rightarrow> exn" where
  "http_error code statusMessage =
     Error (''HTTP '' @ show_nat code @ '': '' @
            (if statusMessage = [] then ''Request failed'' else statusMessage))"

fun makeHttpRequest :: "'d transport \<Rightarrow> exn + 'd response" where
  "makeHttpRequest (RequestError m) = Inl (Error (''Request error: '' @ m))"
| "makeHttpRequest RequestTimeout = Inl (Error ''Request timeout'')"
| "makeHttpRequest (Response None statusMessage b) =
     Inl (Error ''Invalid response - no status code'')"
| "makeHttpRequest (Response (Some code) statusMessage b) =
     (if code \<ge> 400 then Inl (http_error code statusMessage)
      else Inr \<lparr>http_status = Some code, http_data = b\<rparr>)"
| "makeHttpRequest (ResponseBroken None statusMessage m) =
     Inl (Error ''Invalid response - no status code'')"
| "makeHttpRequest (ResponseBroken (Some code) statusMessage m) =
     (if code \<ge> 400 then Inl (http_error code statusMessage)
      else Inl (Error (''Response error: '' @ m)))"

text \<open>
  \<open>makeHttpRequest\<close> of the earlier revision: no timeout and no status check, only the
  request's \<open>error\<close> event rejects. \<open>None\<close> is a promise that never settles.
\<close>

fun makeHttpRequest_v1 :: "'d transport \<Rightarrow> (exn + 'd response) option" where
  "makeHttpRequest_v1 (RequestError m) = Some (Inl (Error m))"
| "makeHttpRequest_v1 RequestTimeout = None"
| "makeHttpRequest_v1 (Response code statusMessage b) =
     Some (Inr \<lparr>http_status = code, http_data = b\<rparr>)"
| "makeHttpRequest_v1 (ResponseBroken code statusMessage m) = None"

subsection \<open>Collaborator payloads\<close>

text \<open>
  A decoded body as the stages read it. \<open>JNull\<close> is JSON \<open>null\<close>, on which every property
  read throws; \<open>JValue v\<close> is any other value, seen through the properties the stage
  reads. An array-valued property is \<open>NoList\<close> when absent or falsy, \<open>NotAList\<close> when
  truthy but no array, and \<open>JList\<close> otherwise, a \<open>null\<close> entry being \<open>None\<close>. A string
  property is \<open>None\<close> when absent; an entry that is no object has no properties.
\<close>

datatype 'a jvalue = JNull | JValue 'a

datatype 'a jlist = NoList | NotAList | JList "'a option list"

record news_item =
  headline_title :: "string option"
  item_source :: "string option"
  item_published :: "int option"
  item_url :: "string option"

record news_envelope =
  env_status :: "string option"
  env_data :: "news_item jlist"

text \<open>A Pexels photo: \<open>src_large\<close> is \<open>None\<close> when \<open>photo.src\<close> is missing, so that
  \<open>photo.src.large\<close> throws, and \<open>Some None\<close> when \<open>src\<close> has no \<open>large\<close>.\<close>

record pexels_photo =
  src_large :: "string option option"
  photo_photographer :: "string option"
  photo_alt :: "string option"

record unsplash_photo =
  urls_regular :: "string option option"
  user_name :: "string option option"
  alt_description :: "string option"

section \<open>The pipeline object and its host\<close>

datatype run_result = Health bool | Results run_record

record last_run =
  last_timestamp :: "int option"
  last_status :: "string option"
  last_duration :: "rat option"
  last_video_url :: "string option"

text \<open>
  The scheduler's state file \<open>last_run.json\<close>: missing, unreadable, not JSON, the JSON
  value \<open>null\<close>, another falsy JSON value, or a value read through the two properties
  the scheduler looks at (\<open>last_timestamp\<close> is \<open>None\<close> when \<open>new Date(timestamp)\<close> is
  invalid, \<open>last_status\<close> is \<open>None\<close> when \<open>status\<close> is no string).
\<close>

datatype last_run_file =
    Missing
  | Unreadable
  | NotJson
  | NullJson
  | FalsyJson
  | Stored last_run

record world =
  results :: run_record
  config :: config
  clock :: "nat \<Rightarrow> int"
  reads :: nat
  random :: "nat \<Rightarrow> rat"
  draws :: nat
  env :: "string \<Rightarrow> string option"
  news_service :: "news_envelope jvalue transport"
  pexels_service :: "pexels_photo jlist jvalue transport"
  unsplash_service :: "unsplash_photo jlist jvalue transport"
  pipeline_results_json :: "run_record option"
  last_run_json :: last_run_file

text \<open>Reading the clock (\<open>Date.now()\<close>, \<open>new Date()\<close>) and drawing \<open>Math.random()\<close>:
  the host supplies the successive values.\<close>

definition now :: "world \<Rightarrow> int \<times> world" where
  "now w = (clock w (reads w), w\<lparr>reads := Suc (reads w)\<rparr>)"

definition math_random :: "world \<Rightarrow> rat \<times> world" where
  "math_random w = (random w (draws w), w\<lparr>draws := Suc (draws w)\<rparr>)"

definition env_or :: "world \<Rightarrow> string \<Rightarrow> string \<Rightarrow> string" where
  "env_or w key dflt = (case env w key of None \<Rightarrow> dflt | Some v \<Rightarrow> if v = [] then dflt else v)"

text \<open>\<open>new SpacePipeline()\<close>: a fresh run record and the configuration read from the
  environment.\<close>

definition SpacePipeline :: "world \<Rightarrow> world" where
  "SpacePipeline w =
     (let (t0, w1) = now w;
          (t1, w2) = now w1
      in w2\<lparr>results :=
              \<lparr>workflow_id = ''workflow_'' @ show_int t0,
               start_time = t1,
               steps = [],
               status = ''running'',
               end_time = None,
               total_duration_seconds = None,
               final_outputs = None,
               error = None\<rparr>,
            config :=
              \<lparr>tts_openai_api_key = env_or w ''TTS_OPENAI_API_KEY'' [],
               pexels_api_key = env_or w ''PEXELS_API_KEY'' [],
               unsplash_access_key = env_or w ''UNSPLASH_ACCESS_KEY'' [],
               nasa_api_key = env_or w ''NASA_API_KEY'' ''DEMO_KEY''\<rparr>\<rparr>)"

definition logStep :: "string \<Rightarrow> bool \<Rightarrow> (string \<times> dval) list \<Rightarrow> world \<Rightarrow> world" where
  "logStep stepName succ det w =
     (let (t, w1) = now w
      in w1\<lparr>results := (results w1)
              \<lparr>steps := steps (results w1) @
                 [\<lparr>step = stepName, timestamp = t, success = succ, details = det\<rparr>]\<rparr>\<rparr>)"

section \<open>The stages\<close>

record article =
  title :: string
  source :: string
  published :: int
  url :: string

subsection \<open>Script generation\<close>

definition intros :: "string list" where
  "intros =
    [''Welcome to Space News Today! Here are the latest developments in space exploration.'',
     ''Greetings, space enthusiasts! Let's dive into today's cosmic updates.'',
     ''Get ready for another incredible journey through the latest space discoveries!'']"

definition outros :: "string list" where
  "outros =
    [''That's all for today's space news. Stay curious, and keep looking up!'',
     ''Thanks for joining us on this cosmic journey. Until next time!'',
     ''Keep exploring the wonders of the universe. See you next time!'']"

definition filler :: string where
  "filler =
     ''Today we're exploring the fascinating world of space exploration. '' @
     ''From distant galaxies to Mars missions, the universe continues to amaze us. '' @
     ''Space agencies around the world are pushing the boundaries of human knowledge. ''"

text \<open>The \<open>forEach\<close> over the articles: \<open>index\<close> is the position of the first article
  of the remaining list.\<close>

fun stories :: "nat \<Rightarrow> article list \<Rightarrow> string" where
  "stories index [] = []"
| "stories index (a # as) =
     ''Story '' @ show_nat (index + 1) @ '': '' @ title a @ ''. '' @
     ''This update comes from '' @ source a @ ''. '' @
     [newline, newline] @
     stories (index + 1) as"

definition generateScript :: "article list \<Rightarrow> world \<Rightarrow> string \<times> world" where
  "generateScript articles w =
     (let (r1, w1) = math_random w;
          script1 = at_index intros \<lfloor>r1 * of_nat (length intros)\<rfloor> @ [newline, newline];
          script2 = (if length articles > 0 then script1 @ stories 0 articles
                     else script1 @ filler);
          (r2, w2) = math_random w1;
          script = script2 @ at_index outros \<lfloor>r2 * of_nat (length outros)\<rfloor>;
          wordCount = length (split CHR '' '' script);
          estimatedDuration = (of_nat wordCount / 150) * 60;
          det = [(''word_count'', DNum (of_nat wordCount)),
                 (''estimated_duration_seconds'', DNum (round1 estimatedDuration)),
                 (''segments'', DNum (of_nat (length articles))),
                 (''script_preview'', DStr (take 100 script @ ''...''))]
      in (script, logStep ''Script Generation'' True det w2))"

subsection \<open>News collection (later revision)\<close>

text \<open>\<open>value || dflt\<close> on a string property: absent and empty are falsy.\<close>

definition or_default :: "string option \<Rightarrow> string \<Rightarrow> string" where
  "or_default v dflt = (case v of None \<Rightarrow> dflt | Some s \<Rightarrow> if s = [] then dflt else s)"

text \<open>
  \<open>Array.prototype.sort\<close> with a comparator. The sort is stable, and for a comparator
  that orders by a key it returns the one stable ordering; it is written here as a stable
  insertion sort.
\<close>

fun insert_by :: "('a \<Rightarrow> 'a \<Rightarrow> int) \<Rightarrow> 'a \<Rightarrow> 'a list \<Rightarrow> 'a list" where
  "insert_by cmp x [] = [x]"
| "insert_by cmp x (y # ys) =
     (if cmp x y \<le> 0 then x # y # ys else y # insert_by cmp x ys)"

definition sort_by :: "('a \<Rightarrow> 'a \<Rightarrow> int) \<Rightarrow> 'a list \<Rightarrow> 'a list" where
  "sort_by cmp xs = foldr (insert_by cmp) xs []"

definition by_date :: "article \<Rightarrow> article \<Rightarrow> int" where
  "by_date a b = published b - published a"

text \<open>\<open>[...new Set(xs)]\<close>: the first occurrence of each element, in order.\<close>

definition unique :: "'a list \<Rightarrow> 'a list" where
  "unique xs = rev (remdups (rev xs))"

definition latest_article :: "article list \<Rightarrow> string" where
  "latest_article xs = (case xs of [] \<Rightarrow> ''None'' | a # _ \<Rightarrow> title a)"

text \<open>The \<open>map\<close> over the service's items; a \<open>null\<close> item makes the property read throw
  (\<open>None\<close>). An item without \<open>published\<close> reads the clock.\<close>

fun toArticles :: "news_item option list \<Rightarrow> world \<Rightarrow> article list option \<times> world" where
  "toArticles [] w = (Some [], w)"
| "toArticles (None # rest) w = (None, w)"
| "toArticles (Some item # rest) w =
     (let (pub, w1) = (case item_published item of Some t \<Rightarrow> (t, w) | None \<Rightarrow> now w);
          a = \<lparr>title = or_default (headline_title item) ''Unknown Title'',
               source = or_default (item_source item) ''Unknown Source'',
               published = pub,
               url = or_default (item_url item) []\<rparr>
      in case toArticles rest w1 of
           (None, w2) \<Rightarrow> (None, w2)
         | (Some as, w2) \<Rightarrow> (Some (a # as), w2))"

definition news_from_service :: "article list \<Rightarrow> world \<Rightarrow> article list \<times> world" where
  "news_from_service converted w =
     (let allArticles = sort_by by_date converted;
          det = [(''articles_collected'', DNum (of_nat (length allArticles))),
                 (''sources'', DList (map DStr (unique (map source allArticles)))),
                 (''successful_feeds'', DStr ''flask_service''),
                 (''latest_article'', DStr (latest_article allArticles))]
      in (take 5 allArticles, logStep ''News Collection'' True det w))"

definition fallbackNews :: "world \<Rightarrow> article list \<times> world" where
  "fallbackNews w =
     (let (t1, w1) = now w;
          (t2, w2) = now w1;
          (t3, w3) = now w2
      in ([\<lparr>title = ''NASA Artemis Mission Achieves Major Milestone'',
             source = ''NASA News'', published = t1, url = ''https://www.nasa.gov/artemis''\<rparr>,
           \<lparr>title = ''SpaceX Launches Advanced Satellite Constellation'',
             source = ''Space News'', published = t2, url = ''https://www.spacex.com''\<rparr>,
           \<lparr>title = ''James Webb Telescope Discovers Distant Galaxy'',
             source = ''ESA Updates'', published = t3, url = ''https://www.esa.int''\<rparr>], w3))"

definition news_from_fallback :: "world \<Rightarrow> article list \<times> world" where
  "news_from_fallback w =
     (let (fallback, w1) = fallbackNews w;
          allArticles = sort_by by_date fallback;
          det = [(''articles_collected'', DNum (of_nat (length allArticles))),
                 (''sources'', DList [DStr ''Simulated Data'']),
                 (''successful_feeds'', DStr ''offline_mode''),
                 (''latest_article'', DStr (latest_article allArticles))]
      in (take 5 allArticles, logStep ''News Collection'' True det w1))"

text \<open>
  \<open>collectNews\<close>: the \<open>try\<close> block returns from the service's answer when the status is
  200 and the body's \<open>status\<close> is \<open>success\<close>; a rejected request and a \<open>TypeError\<close> inside
  the block are caught, and every other outcome falls out of the block, all of them into
  the fallback.
\<close>

definition collectNews :: "world \<Rightarrow> article list \<times> world" where
  "collectNews w =
     (case makeHttpRequest (news_service w) of
        Inl e \<Rightarrow> news_from_fallback w
      | Inr response \<Rightarrow>
          (if http_status response = Some 200 then
             (case http_data response of
                Text raw \<Rightarrow> news_from_fallback w
              | Json JNull \<Rightarrow> news_from_fallback w
              | Json (JValue envelope) \<Rightarrow>
                  (if env_status envelope = Some ''success'' then
                     (case env_data envelope of
                        NoList \<Rightarrow> news_from_service [] w
                      | NotAList \<Rightarrow> news_from_fallback w
                      | JList items \<Rightarrow>
                          (case toArticles items w of
                             (None, w1) \<Rightarrow> news_from_fallback w1
                           | (Some converted, w1) \<Rightarrow> news_from_service converted w1))
                   else news_from_fallback w))
           else news_from_fallback w))"

subsection \<open>Media collection\<close>

record media_item =
  media_url :: "string option"
  media_source :: string
  media_type :: string
  photographer :: "string option"
  alt :: string

text \<open>The \<open>forEach\<close> over the Pexels photos, pushing onto \<open>mediaItems\<close>. The flag tells
  whether the loop ran to its end; a \<open>null\<close> photo or a photo without \<open>src\<close> throws, and
  what was pushed before stays.\<close>

fun push_pexels :: "pexels_photo option list \<Rightarrow> media_item list \<Rightarrow> media_item list \<times> bool" where
  "push_pexels [] mediaItems = (mediaItems, True)"
| "push_pexels (None # rest) mediaItems = (mediaItems, False)"
| "push_pexels (Some photo # rest) mediaItems =
     (case src_large photo of
        None \<Rightarrow> (mediaItems, False)
      | Some large \<Rightarrow>
          push_pexels rest
            (mediaItems @
               [\<lparr>media_url = large, media_source = ''pexels'', media_type = ''image'',
                 photographer = photo_photographer photo,
                 alt = or_default (photo_alt photo) ''Space image''\<rparr>]))"

definition simulatedImages :: "string list" where
  "simulatedImages =
    [''https://images.pexels.com/photos/2150/sky-space-dark-galaxy.jpg'',
     ''https://images.pexels.com/photos/39649/space-cosmos-universe-galaxy-39649.jpeg'',
     ''https://images.pexels.com/photos/73873/rocket-launch-rocket-take-off-nasa-73873.jpeg'',
     ''https://images.pexels.com/photos/87009/earth-soil-creep-moon-lunar-surface-87009.jpeg'',
     ''https://images.pexels.com/photos/23769/pexels-photo-23769.jpg'']"

fun curated :: "bool \<Rightarrow> nat \<Rightarrow> string list \<Rightarrow> media_item list" where
  "curated realMediaCollected index [] = []"
| "curated realMediaCollected index (u # us) =
     \<lparr>media_url = Some u,
      media_source = (if realMediaCollected then ''curated'' else ''simulated''),
      media_type = ''image'',
      photographer = Some (if realMediaCollected then ''Curated'' else ''Simulated Data''),
      alt = ''Space image '' @ show_nat (index + 1)\<rparr>
     # curated realMediaCollected (index + 1) us"

definition sample_image :: "media_item list \<Rightarrow> string" where
  "sample_image xs = (case xs of [] \<Rightarrow> ''None'' | m # _ \<Rightarrow> alt m)"

definition count_source :: "string \<Rightarrow> media_item list \<Rightarrow> nat" where
  "count_source s xs = length (filter (\<lambda>item. media_source item = s) xs)"

text \<open>The items collected from Pexels by the later revision and the flag
  \<open>realMediaCollected\<close>, which is set only after the loop over the photos.\<close>

definition pexels_items :: "world \<Rightarrow> media_item list \<times> bool" where
  "pexels_items w =
     (if pexels_api_key (config w) \<noteq> [] then
        (case makeHttpRequest (pexels_service w) of
           Inl e \<Rightarrow> ([], False)
         | Inr pexelsResponse \<Rightarrow>
             (if http_status pexelsResponse = Some 200 then
                (case http_data pexelsResponse of
                   Text raw \<Rightarrow> ([], False)
                 | Json JNull \<Rightarrow> ([], False)
                 | Json (JValue NoList) \<Rightarrow> ([], False)
                 | Json (JValue NotAList) \<Rightarrow> ([], False)
                 | Json (JValue (JList photos)) \<Rightarrow> push_pexels photos [])
              else ([], False)))
      else ([], False))"

definition collectMedia :: "world \<Rightarrow> media_item list \<times> world" where
  "collectMedia w =
     (let (collected, realMediaCollected) = pexels_items w;
          mediaItems = (if length collected < 5
                        then collected @ curated realMediaCollected 0 simulatedImages
                        else collected);
          det = [(''total_images'', DNum (of_nat (length mediaItems))),
                 (''pexels_count'', DNum (of_nat (count_source ''pexels'' mediaItems))),
                 (''unsplash_count'', DNum 0),
                 (''simulated_count'',
                    DNum (of_nat (length (filter
                      (\<lambda>item. media_source item = ''simulated'' \<or> media_source item = ''curated'')
                      mediaItems)))),
                 (''api_calls_successful'',
                    DStr (if realMediaCollected then ''partial'' else ''offline_mode'')),
                 (''sample_image'', DStr (sample_image mediaItems))]
      in (mediaItems, logStep ''Media Collection'' True det w))"

subsection \<open>Media collection (earlier revision)\<close>

text \<open>
  The earlier \<open>collectMedia\<close> asks Pexels and Unsplash when their keys are set, through
  the earlier HTTP client, and then always appends three NASA images. It has no
  threshold. \<open>None\<close> is a run that waits for ever on a request that never settles.
\<close>

fun push_unsplash :: "unsplash_photo option list \<Rightarrow> media_item list \<Rightarrow> media_item list" where
  "push_unsplash [] mediaItems = mediaItems"
| "push_unsplash (None # rest) mediaItems = mediaItems"
| "push_unsplash (Some photo # rest) mediaItems =
     (case urls_regular photo of
        None \<Rightarrow> mediaItems
      | Some regular \<Rightarrow>
          (case user_name photo of
             None \<Rightarrow> mediaItems
           | Some name \<Rightarrow>
               push_unsplash rest
                 (mediaItems @
                    [\<lparr>media_url = regular, media_source = ''unsplash'', media_type = ''image'',
                      photographer = name,
                      alt = or_default (alt_description photo) ''Space image''\<rparr>])))"

definition nasaImages :: "string list" where
  "nasaImages =
    [''https://images.nasa.gov/hubble-1.jpg'',
     ''https://images.nasa.gov/mars-1.jpg'',
     ''https://images.nasa.gov/nebula-1.jpg'']"

fun nasa_items :: "nat \<Rightarrow> string list \<Rightarrow> media_item list" where
  "nasa_items index [] = []"
| "nasa_items index (u # us) =
     \<lparr>media_url = Some u, media_source = ''nasa'', media_type = ''image'',
      photographer = Some ''NASA'',
      alt = ''NASA space image '' @ show_nat (index + 1)\<rparr>
     # nasa_items (index + 1) us"

definition pexels_items_v1 :: "world \<Rightarrow> media_item list option" where
  "pexels_items_v1 w =
     (if pexels_api_key (config w) \<noteq> [] then
        (case makeHttpRequest_v1 (pexels_service w) of
           None \<Rightarrow> None
         | Some (Inl e) \<Rightarrow> Some []
         | Some (Inr response) \<Rightarrow>
             (if http_status response = Some 200 then
                (case http_data response of
                   Text raw \<Rightarrow> Some []
                 | Json JNull \<Rightarrow> Some []
                 | Json (JValue NoList) \<Rightarrow> Some []
                 | Json (JValue NotAList) \<Rightarrow> Some []
                 | Json (JValue (JList photos)) \<Rightarrow> Some (fst (push_pexels photos [])))
              else Some []))
      else Some [])"

definition unsplash_items_v1 :: "world \<Rightarrow> media_item list \<Rightarrow> media_item list option" where
  "unsplash_items_v1 w mediaItems =
     (if unsplash_access_key (config w) \<noteq> [] then
        (case makeHttpRequest_v1 (unsplash_service w) of
           None \<Rightarrow> None
         | Some (Inl e) \<Rightarrow> Some mediaItems
         | Some (Inr response) \<Rightarrow>
             (if http_status response = Some 200 then
                (case http_data response of
                   Text raw \<Rightarrow> Some mediaItems
                 | Json JNull \<Rightarrow> Some mediaItems
                 | Json (JValue NoList) \<Rightarrow> Some mediaItems
                 | Json (JValue NotAList) \<Rightarrow> Some mediaItems
                 | Json (JValue (JList photos)) \<Rightarrow> Some (push_unsplash photos mediaItems))
              else Some mediaItems))
      else Some mediaItems)"

definition collectMedia_v1 :: "world \<Rightarrow> (media_item list \<times> world) option" where
  "collectMedia_v1 w =
     (case pexels_items_v1 w of
        None \<Rightarrow> None
      | Some fromPexels \<Rightarrow>
          (case unsplash_items_v1 w fromPexels of
             None \<Rightarrow> None
           | Some collected \<Rightarrow>
               (let mediaItems = collected @ nasa_items 0 nasaImages;
                    det = [(''total_images'', DNum (of_nat (length mediaItems))),
                           (''pexels_count'', DNum (of_nat (count_source ''pexels'' mediaItems))),
                           (''unsplash_count'',
                              DNum (of_nat (count_source ''unsplash'' mediaItems))),
                           (''nasa_count'', DNum (of_nat (count_source ''nasa'' mediaItems))),
                           (''sample_image'', DStr (sample_image mediaItems))]
                in Some (mediaItems, logStep ''Media Collection'' True det w))))"

subsection \<open>Narration and production\<close>

record audio =
  audio_file :: string
  duration :: rat
  voice :: dval

record video =
  produced_file :: string
  produced_url :: string
  produced_duration :: rat
  production :: dval

definition ttsConfig :: dval where
  "ttsConfig =
     DObj [(''voice_id'', DStr ''tts_openai_alloy''),
           (''voice_name'', DStr ''Alloy''),
           (''language'', DStr ''en-US''),
           (''speed'', DNum 1),
           (''pitch'', DNum 0)]"

definition generateTTS :: "string \<Rightarrow> world \<Rightarrow> audio \<times> world" where
  "generateTTS text w =
     (let wordCount = length (split CHR '' '' text);
          estimatedDuration = (of_nat wordCount / 150) * 60;
          fileSizeMB = estimatedDuration * (1 / 2);
          ttsSuccess = (tts_openai_api_key (config w) \<noteq> []);
          (r, w1) = math_random w;
          det = [(''duration_seconds'', DNum (round1 estimatedDuration)),
                 (''estimated_file_size_mb'', DNum (round2 fileSizeMB)),
                 (''voice_config'', ttsConfig),
                 (''processing_time'', DStr (show_int (math_round (r * 20 + 10)) @ '' seconds'')),
                 (''api_called'', DBool ttsSuccess)]
      in (\<lparr>audio_file = ''output/narration.mp3'', duration = estimatedDuration,
            voice = ttsConfig\<rparr>,
          logStep ''TTS Generation'' True det w1))"

definition productionConfig :: dval where
  "productionConfig =
     DObj [(''resolution'', DStr ''1920x1080''),
           (''fps'', DNum 30),
           (''format'', DStr ''mp4''),
           (''codec'', DStr ''h264''),
           (''bitrate'', DStr ''5000k'')]"

definition produceVideo :: "string \<Rightarrow> media_item list \<Rightarrow> audio \<Rightarrow> world \<Rightarrow> video \<times> world" where
  "produceVideo text media aud w =
     (let videoDuration = duration aud;
          estimatedFileSize = videoDuration * 2;
          det = [(''video_duration'',
                    DStr (show_tenths (math_round (videoDuration * 10)) @ '' seconds'')),
                 (''resolution'', DStr ''1920x1080''),
                 (''estimated_size_mb'', DNum (round1 estimatedFileSize)),
                 (''images_used'', DNum (of_nat (length media))),
                 (''production_config'', productionConfig),
                 (''output_file'', DStr ''output/space_news_video.mp4'')]
      in (\<lparr>produced_file = ''output/space_news_video.mp4'',
            produced_url = ''https://example.com/space_news_video.mp4'',
            produced_duration = videoDuration,
            production = productionConfig\<rparr>,
          logStep ''Video Production'' True det w))"

subsection \<open>Environment validation and health check\<close>

definition requiredKeys :: "string list" where
  "requiredKeys = [''TTS_OPENAI_API_KEY'', ''PEXELS_API_KEY'', ''UNSPLASH_ACCESS_KEY'']"

definition key_configured :: "world \<Rightarrow> string \<Rightarrow> bool" where
  "key_configured w key =
     (case env w key of
        None \<Rightarrow> False
      | Some v \<Rightarrow> v \<noteq> [] \<and> \<not> str_includes v ''your_'' \<and> \<not> str_includes v ''_here'')"

definition validateEnvironment :: "world \<Rightarrow> bool \<times> world" where
  "validateEnvironment w =
     (let configuredKeys = filter (key_configured w) requiredKeys;
          missingKeys = filter (\<lambda>key. \<not> key_configured w key) requiredKeys;
          det = [(''configured_keys'', DNum (of_nat (length configuredKeys))),
                 (''missing_keys'', DNum (of_nat (length missingKeys))),
                 (''missing_list'',
                    (if length missingKeys > 0 then DList (map DStr missingKeys)
                     else DStr ''None''))];
          ok = (length missingKeys = 0)
      in (ok, logStep ''Environment Validation'' ok det w))"

definition healthCheck :: "world \<Rightarrow> bool \<times> world" where
  "healthCheck w =
     (let (environment, w1) = validateEnvironment w;
          newsSources = True;
          mediaApis = (pexels_api_key (config w1) \<noteq> [] \<and> unsplash_access_key (config w1) \<noteq> []);
          ttsService = (tts_openai_api_key (config w1) \<noteq> [])
      in (environment \<and> newsSources \<and> mediaApis \<and> ttsService, w1))"

section \<open>The orchestrator\<close>

text \<open>
  \<open>runPipeline\<close> calls the stages as methods of \<open>this\<close> inside one \<open>try\<close> block. A method
  call either returns a value or throws, and in both cases leaves the world as the
  method changed it. The orchestrator is embedded for any such methods (\<open>stages\<close>), so
  that its \<open>catch\<close> block is a branch of the model whatever makes a stage throw;
  \<open>SpacePipeline_stages\<close> are the methods of the class itself.
\<close>

type_synonym 'a action = "world \<Rightarrow> (exn + 'a) \<times> world"

record stages =
  m_validateEnvironment :: "bool action"
  m_collectNews :: "article list action"
  m_generateScript :: "article list \<Rightarrow> string action"
  m_collectMedia :: "media_item list action"
  m_generateTTS :: "string \<Rightarrow> audio action"
  m_produceVideo :: "string \<Rightarrow> media_item list \<Rightarrow> audio \<Rightarrow> video action"
  m_healthCheck :: "bool action"

definition returning :: "(world \<Rightarrow> 'a \<times> world) \<Rightarrow> 'a action" where
  "returning f w = (case f w of (x, w') \<Rightarrow> (Inr x, w'))"

definition and_then :: "'a action \<Rightarrow> ('a \<Rightarrow> 'b action) \<Rightarrow> 'b action" where
  "and_then m f w = (case m w of (Inl e, w') \<Rightarrow> (Inl e, w') | (Inr x, w') \<Rightarrow> f x w')"

definition SpacePipeline_stages :: stages where
  "SpacePipeline_stages =
     \<lparr>m_validateEnvironment = returning validateEnvironment,
      m_collectNews = returning collectNews,
      m_generateScript = (\<lambda>articles. returning (generateScript articles)),
      m_collectMedia = returning collectMedia,
      m_generateTTS = (\<lambda>text. returning (generateTTS text)),
      m_produceVideo = (\<lambda>text media aud. returning (produceVideo text media aud)),
      m_healthCheck = returning healthCheck\<rparr>"

text \<open>The end of the \<open>try\<close> block: the run is marked completed, timed, given its final
  outputs and written to \<open>pipeline_results.json\<close>.\<close>

definition complete :: "string \<Rightarrow> media_item list \<Rightarrow> audio \<Rightarrow> video \<Rightarrow> world \<Rightarrow> run_record \<times> world" where
  "complete text media aud vid w =
     (let w1 = w\<lparr>results := (results w)\<lparr>status := ''completed''\<rparr>\<rparr>;
          (t, w2) = now w1;
          r2 = (results w2)\<lparr>end_time := Some t\<rparr>;
          seconds = of_int (t - start_time r2) / 1000;
          r3 = r2\<lparr>total_duration_seconds := Some seconds,
                  final_outputs :=
                    Some \<lparr>script = text,
                          media_count = length media,
                          audio_duration = duration aud,
                          video_file = produced_file vid,
                          video_url = produced_url vid\<rparr>\<rparr>
      in (r3, w2\<lparr>results := r3, pipeline_results_json := Some r3\<rparr>))"

text \<open>The \<open>try\<close> block. With the health-check option it returns the boolean of
  \<open>healthCheck\<close>; otherwise it runs the six stages in order.\<close>

definition attempt :: "stages \<Rightarrow> bool \<Rightarrow> run_result action" where
  "attempt this healthCheckOnly =
     (if healthCheckOnly then
        and_then (m_healthCheck this) (\<lambda>healthy w. (Inr (Health healthy), w))
      else
        and_then (m_validateEnvironment this) (\<lambda>envValid.
        and_then (m_collectNews this) (\<lambda>articles.
        and_then (m_generateScript this articles) (\<lambda>text.
        and_then (m_collectMedia this) (\<lambda>media.
        and_then (m_generateTTS this text) (\<lambda>aud.
        and_then (m_produceVideo this text media aud) (\<lambda>vid w.
          case complete text media aud vid w of (r, w') \<Rightarrow> (Inr (Results r), w'))))))))"

text \<open>The \<open>catch\<close> block, up to its \<open>throw\<close>.\<close>

definition failed :: "exn \<Rightarrow> world \<Rightarrow> world" where
  "failed e w =
     (let w1 = w\<lparr>results := (results w)\<lparr>status := ''failed'', error := Some (message e)\<rparr>\<rparr>;
          w2 = logStep ''Pipeline Execution'' False [(''error'', DStr (message e))] w1
      in w2\<lparr>pipeline_results_json := Some (results w2)\<rparr>)"

definition runPipeline :: "stages \<Rightarrow> bool \<Rightarrow> run_result action" where
  "runPipeline this healthCheckOnly w =
     (case attempt this healthCheckOnly w of
        (Inl e, w1) \<Rightarrow> (Inl e, failed e w1)
      | (Inr r, w1) \<Rightarrow> (Inr r, w1))"

section \<open>The scheduler\<close>

text \<open>What \<open>getLastRunInfo\<close> returns: \<open>null\<close>, a falsy value other than \<open>null\<close>, or a
  value with the properties the scheduler reads.\<close>

datatype last_run_info = Null | Falsy | Info last_run

definition getLastRunInfo :: "world \<Rightarrow> last_run_info" where
  "getLastRunInfo w =
     (case last_run_json w of
        Missing \<Rightarrow> Null
      | Unreadable \<Rightarrow> Null
      | NotJson \<Rightarrow> Null
      | NullJson \<Rightarrow> Null
      | FalsyJson \<Rightarrow> Falsy
      | Stored lastRun \<Rightarrow> Info lastRun)"

definition twoHours :: int where
  "twoHours = 2 * 60 * 60 * 1000"

text \<open>\<open>shouldRunNow\<close>. An invalid \<open>timestamp\<close> makes \<open>timeSinceLast\<close> \<open>NaN\<close>, which is
  not below two hours.\<close>

definition shouldRunNow :: "world \<Rightarrow> bool \<times> world" where
  "shouldRunNow w =
     (case getLastRunInfo w of
        Null \<Rightarrow> (True, w)
      | Falsy \<Rightarrow> (True, w)
      | Info lastRun \<Rightarrow>
          (let (t, w1) = now w
           in case last_timestamp lastRun of
                None \<Rightarrow> (True, w1)
              | Some lastRunTime \<Rightarrow>
                  (let timeSinceLast = t - lastRunTime
                   in if timeSinceLast < twoHours \<and> last_status lastRun = Some ''completed''
                      then (False, w1)
                      else (True, w1))))"

text \<open>\<open>saveLastRun\<close> reads \<open>status\<close>, \<open>total_duration_seconds\<close> and
  \<open>final_outputs?.video_url\<close> of what \<open>runPipeline\<close> returned; on the boolean of a health
  check all three are \<open>undefined\<close>.\<close>

definition saveLastRun :: "run_result \<Rightarrow> world \<Rightarrow> world" where
  "saveLastRun res w =
     (let (t, w1) = now w;
          runInfo =
            (case res of
               Health healthy \<Rightarrow>
                 \<lparr>last_timestamp = Some t, last_status = None, last_duration = None,
                  last_video_url = None\<rparr>
             | Results r \<Rightarrow>
                 \<lparr>last_timestamp = Some t,
                  last_status = Some (status r),
                  last_duration = total_duration_seconds r,
                  last_video_url = map_option video_url (final_outputs r)\<rparr>)
      in w1\<lparr>last_run_json := Stored runInfo\<rparr>)"

text \<open>\<open>runScheduledVideoGeneration\<close>: the gate, then a new pipeline object whose
  \<open>runPipeline\<close> is awaited inside \<open>try\<close>; \<open>saveLastRun\<close> follows the \<open>await\<close> inside the
  same block, and the \<open>catch\<close> block only prints.\<close>

definition runScheduledVideoGeneration :: "stages \<Rightarrow> world \<Rightarrow> world" where
  "runScheduledVideoGeneration pipeline w =
     (case shouldRunNow w of
        (False, w1) \<Rightarrow> w1
      | (True, w1) \<Rightarrow>
          (case runPipeline pipeline False (SpacePipeline w1) of
             (Inl e, w2) \<Rightarrow> w2
           | (Inr res, w2) \<Rightarrow> saveLastRun res w2))"

section \<open>Stage discipline\<close>

text \<open>
  The stages of the class touch the run record only through \<open>logStep\<close>. For the
  orchestrator's own invariants this is what is asked of any methods it dispatches to:
  a method \<open>logs_only\<close> when, returning or throwing, it leaves the run record as it
  was up to step records appended at the end.
\<close>

definition logs_only :: "'a action \<Rightarrow> bool" where
  "logs_only act =
     (\<forall>w. \<exists>new. results (snd (act w)) = (results w)\<lparr>steps := steps (results w) @ new\<rparr>)"

definition disciplined :: "stages \<Rightarrow> bool" where
  "disciplined this =
     (logs_only (m_validateEnvironment this) \<and>
      logs_only (m_collectNews this) \<and>
      (\<forall>articles. logs_only (m_generateScript this articles)) \<and>
      logs_only (m_collectMedia this) \<and>
      (\<forall>text. logs_only (m_generateTTS this text)) \<and>
      (\<forall>text media aud. logs_only (m_produceVideo this text media aud)) \<and>
      logs_only (m_healthCheck this))"

definition unfinished :: "run_record \<Rightarrow> bool" where
  "unfinished r = (status r = ''running'' \<and> final_outputs r = None \<and> error r = None)"

text \<open>A record as the constructor leaves it, up to its steps; a world as the \<open>try\<close>
  block leaves it on return; and the triples used to reason along the chain of
  stages: from \<open>P\<close>, the action ends in \<open>Q\<close> when it returns and in \<open>E\<close> when it
  throws.\<close>

definition finished :: "run_result \<Rightarrow> world \<Rightarrow> bool" where
  "finished res w =
     (case res of
        Health healthy \<Rightarrow> unfinished (results w)
      | Results r \<Rightarrow>
          status r = ''completed'' \<and> final_outputs r \<noteq> None \<and> error r = None \<and>
          results w = r \<and> pipeline_results_json w = Some r)"

definition valid ::
  "(world \<Rightarrow> bool) \<Rightarrow> 'a action \<Rightarrow> ('a \<Rightarrow> world \<Rightarrow> bool) \<Rightarrow> (world \<Rightarrow> bool) \<Rightarrow> bool" where
  "valid P act Q E =
     (\<forall>w. P w \<longrightarrow> (case act w of (Inl e, w') \<Rightarrow> E w' | (Inr x, w') \<Rightarrow> Q x w'))"

section \<open>Concrete hosts\<close>

text \<open>
  A host without credentials whose news service answers 500 and whose image services are
  unreachable; the clock advances a quarter of a second per reading and \<open>Math.random\<close>
  returns 0.
\<close>

definition offline_world :: world where
  "offline_world =
     \<lparr>results = \<lparr>workflow_id = [], start_time = 0, steps = [], status = ''running'',
                  end_time = None, total_duration_seconds = None, final_outputs = None,
                  error = None\<rparr>,
      config = \<lparr>tts_openai_api_key = [], pexels_api_key = [], unsplash_access_key = [],
                 nasa_api_key = ''DEMO_KEY''\<rparr>,
      clock = (\<lambda>k. 1700000000000 + 250 * int k),
      reads = 0,
      random = (\<lambda>k. 0),
      draws = 0,
      env = (\<lambda>key. None),
      news_service = Response (Some 500) ''Internal Server Error'' (Text ''oops''),
      pexels_service = RequestError ''getaddrinfo ENOTFOUND api.pexels.com'',
      unsplash_service = RequestError ''getaddrinfo ENOTFOUND api.unsplash.com'',
      pipeline_results_json = None,
      last_run_json = Missing\<rparr>"

text \<open>The same host with a state file that records a run of the given status, the given
  number of minutes before the next clock reading.\<close>

definition world_after_run :: "string \<Rightarrow> int \<Rightarrow> world" where
  "world_after_run st minutes =
     offline_world
       \<lparr>last_run_json :=
          Stored \<lparr>last_timestamp = Some (1700000000000 - minutes * 60 * 1000),
                  last_status = Some st,
                  last_duration = None,
                  last_video_url = None\<rparr>\<rparr>"

text \<open>The script of the offline host for the empty article list: first intro, filler,
  first outro.\<close>

definition offline_script :: string where
  "offline_script =
     ''Welcome to Space News Today! Here are the latest developments in space exploration.'' @
     [newline, newline] @ filler @
     ''That's all for today's space news. Stay curious, and keep looking up!''"

text \<open>The offline host with a Pexels key, whose Pexels service answers with a photo, a
  \<open>null\<close> entry and another photo.\<close>

definition pexels_world :: world where
  "pexels_world =
     offline_world
       \<lparr>config := (config offline_world)\<lparr>pexels_api_key := ''pexels-key''\<rparr>,
        pexels_service :=
          Response (Some 200) ''OK''
            (Json (JValue (JList
               [Some \<lparr>src_large = Some (Some ''https://images.pexels.com/photos/1/large.jpg''),
                       photo_photographer = Some ''Ada'', photo_alt = Some ''Milky Way''\<rparr>,
                None,
                Some \<lparr>src_large = Some (Some ''https://images.pexels.com/photos/2/large.jpg''),
                       photo_photographer = Some ''Bo'', photo_alt = None\<rparr>])))\<rparr>"

text \<open>The methods of the class with a \<open>generateScript\<close> that throws a \<open>TypeError\<close>,
  as the template literal does on an article title that cannot be converted to text.\<close>

definition throwing_stages :: stages where
  "throwing_stages =
     SpacePipeline_stages
       \<lparr>m_generateScript :=
          (\<lambda>articles w. (Inl (Error ''Cannot convert object to primitive value''), w))\<rparr>"

section \<open>Properties of the HTTP client\<close>

text \<open>
  C3 (as amended). In the later revision of the HTTP client a response whose status is
  400 or more rejects the request, whether or not its body arrives: the result is the
  error with message \<open>HTTP <status>: <statusMessage or "Request failed">\<close>, never a
  resolved value.
\<close>

theorem makeHttpRequest_rejects_error_status:
  "400 \<le> code \<Longrightarrow>
     makeHttpRequest (Response (Some code) statusMessage b) = Inl (http_error code statusMessage) \<and>
     makeHttpRequest (ResponseBroken (Some code) statusMessage m) =
       Inl (http_error code statusMessage) \<and>
     message (http_error code statusMessage) =
       ''HTTP '' @ show_nat code @ '': '' @
       (if statusMessage = [] then ''Request failed'' else statusMessage)"
  by (simp add: http_error_def)

lemma show_nat_500: "show_nat 500 = ''500''"
  by code_simp

theorem makeHttpRequest_rejects_error_status_witness:
  "makeHttpRequest (news_service offline_world) = Inl (Error ''HTTP 500: Internal Server Error'')"
  using makeHttpRequest_rejects_error_status [of 500 "''Internal Server Error''" "Text ''oops''"]
  by (simp add: offline_world_def http_error_def show_nat_500)

text \<open>
  C3 as stated fails on the earlier revision of the client, which has no status check:
  the same 500 response resolves, with the status left to the caller.
\<close>

theorem makeHttpRequest_v1_resolves_error_status:
  "makeHttpRequest_v1 (news_service offline_world) =
     Some (Inr \<lparr>http_status = Some 500, http_data = Text ''oops''\<rparr>)"
  by (simp add: offline_world_def)

section \<open>Properties of the scheduler's gate\<close>

text \<open>
  C5. \<open>shouldRunNow\<close> returns false exactly when the state file holds a record whose
  status is \<open>completed\<close> and whose timestamp is less than two hours before the clock
  reading. In particular it returns true for a record three hours old and for every
  record whose status is \<open>failed\<close>.
\<close>

theorem shouldRunNow_gate:
  "(fst (shouldRunNow w) =
      (\<not> (\<exists>lastRun t. last_run_json w = Stored lastRun \<and>
             last_status lastRun = Some ''completed'' \<and>
             last_timestamp lastRun = Some t \<and>
             clock w (reads w) - t < 2 * 60 * 60 * 1000))) \<and>
   (\<forall>lastRun. last_run_json w = Stored lastRun \<and>
        last_timestamp lastRun = Some (clock w (reads w) - 3 * 60 * 60 * 1000)
      \<longrightarrow> fst (shouldRunNow w)) \<and>
   (\<forall>lastRun. last_run_json w = Stored lastRun \<and> last_status lastRun = Some ''failed''
      \<longrightarrow> fst (shouldRunNow w))"
  by (auto simp: shouldRunNow_def getLastRunInfo_def now_def twoHours_def
           split: last_run_file.splits option.splits)

theorem shouldRunNow_gate_witness:
  "\<not> fst (shouldRunNow (world_after_run ''completed'' 30)) \<and>
   fst (shouldRunNow (world_after_run ''completed'' 180)) \<and>
   fst (shouldRunNow (world_after_run ''failed'' 30))"
  using shouldRunNow_gate [of "world_after_run ''completed'' 30"]
        shouldRunNow_gate [of "world_after_run ''completed'' 180"]
        shouldRunNow_gate [of "world_after_run ''failed'' 30"]
  by (simp add: world_after_run_def offline_world_def)

text \<open>
  C9. When the state file is missing, unreadable or not JSON, \<open>getLastRunInfo\<close> returns
  \<open>null\<close> and \<open>shouldRunNow\<close> returns true without touching the world: the corrupt file
  is handled like no previous run.
\<close>

theorem getLastRunInfo_corrupt:
  "last_run_json w = Missing \<or> last_run_json w = Unreadable \<or> last_run_json w = NotJson \<Longrightarrow>
     getLastRunInfo w = Null \<and> shouldRunNow w = (True, w)"
  by (auto simp: shouldRunNow_def getLastRunInfo_def)

theorem getLastRunInfo_corrupt_witness:
  "getLastRunInfo (offline_world\<lparr>last_run_json := NotJson\<rparr>) = Null \<and>
   shouldRunNow (offline_world\<lparr>last_run_json := NotJson\<rparr>) =
     (True, offline_world\<lparr>last_run_json := NotJson\<rparr>)"
  using getLastRunInfo_corrupt [of "offline_world\<lparr>last_run_json := NotJson\<rparr>"]
  by simp

section \<open>Properties of the script stage\<close>

lemma steps_logStep [simp]:
  "steps (results (logStep name ok det w)) =
     steps (results w) @
       [\<lparr>step = name, timestamp = clock w (reads w), success = ok, details = det\<rparr>]"
  by (simp add: logStep_def now_def)

text \<open>A draw in \<open>[0, 1)\<close> scaled by the length of a non-empty array and floored is an
  index of the array.\<close>

lemma at_index_member:
  fixes r :: rat
  assumes "0 \<le> r" "r < 1" "xs \<noteq> []"
  shows "at_index xs \<lfloor>r * of_nat (length xs)\<rfloor> \<in> set xs"
proof -
  let ?n = "length xs"
  have n: "0 < ?n" using assms(3) by simp
  have lo: "0 \<le> \<lfloor>r * of_nat ?n\<rfloor>" using assms(1) by simp
  have "r * of_nat ?n < of_nat ?n" using assms(2) n by simp
  then have hi: "\<lfloor>r * of_nat ?n\<rfloor> < int ?n" by (simp add: floor_less_iff)
  have "nat \<lfloor>r * of_nat ?n\<rfloor> < ?n" using lo hi nat_less_iff by blast
  then have "xs ! nat \<lfloor>r * of_nat ?n\<rfloor> \<in> set xs" by (rule nth_mem)
  with lo hi show ?thesis by (simp add: at_index_def)
qed

lemma generateScript_text:
  "fst (generateScript articles w) =
     at_index intros \<lfloor>random w (draws w) * of_nat (length intros)\<rfloor> @ [newline, newline] @
     (if articles = [] then filler else stories 0 articles) @
     at_index outros \<lfloor>random w (Suc (draws w)) * of_nat (length outros)\<rfloor>"
  by (simp add: generateScript_def math_random_def Let_def)

lemma generateScript_steps:
  "steps (results (snd (generateScript articles w))) =
     steps (results w) @
       [\<lparr>step = ''Script Generation'', timestamp = clock w (reads w), success = True,
         details =
           [(''word_count'',
               DNum (of_nat (length (split CHR '' '' (fst (generateScript articles w)))))),
            (''estimated_duration_seconds'',
               DNum (round1
                 (of_nat (length (split CHR '' '' (fst (generateScript articles w)))) / 150 * 60))),
            (''segments'', DNum (of_nat (length articles))),
            (''script_preview'', DStr (take 100 (fst (generateScript articles w)) @ ''...''))]\<rparr>]"
  by (simp add: generateScript_def math_random_def Let_def)

text \<open>The reported duration is exact: \<open>n / 150 * 60\<close> is a multiple of a fifth, which
  rounding to one decimal leaves alone.\<close>

lemma math_round_of_int: "math_round (of_int k) = k"
proof -
  have "\<lfloor>(1 / 2 :: rat) + of_int k\<rfloor> = \<lfloor>(1 / 2 :: rat)\<rfloor> + k"
    by (simp only: floor_add_int)
  moreover have "\<lfloor>(1 / 2 :: rat)\<rfloor> = 0"
    by (rule floor_unique) simp_all
  ultimately show ?thesis by (simp add: math_round_def add.commute)
qed

lemma round1_duration: "round1 (of_nat n / 150 * 60) = of_nat n / 150 * 60"
proof -
  have "(of_nat n / 150 * 60 * 10 :: rat) = of_int (4 * int n)" by simp
  then have "math_round (of_nat n / 150 * 60 * 10) = 4 * int n"
    by (simp only: math_round_of_int)
  then show ?thesis by (simp add: round1_def)
qed

lemma round1_fifths: "round1 (2 * of_nat n / 5) = 2 * of_nat n / 5"
  using round1_duration [of n] by simp

text \<open>What the stage reports for any article list: the number of pieces of the script
  between single spaces, and sixty hundred-and-fiftieths of it as the duration.\<close>

lemma generateScript_reports:
  "map_of (details (last (steps (results (snd (generateScript articles w)))))) ''word_count'' =
     Some (DNum (of_nat (length (split CHR '' '' (fst (generateScript articles w)))))) \<and>
   map_of (details (last (steps (results (snd (generateScript articles w))))))
       ''estimated_duration_seconds'' =
     Some (DNum (of_nat (length (split CHR '' '' (fst (generateScript articles w)))) / 150 * 60))"
  by (simp add: generateScript_steps round1_fifths)

lemma generateScript_offline: "fst (generateScript [] offline_world) = offline_script"
  by (simp add: generateScript_text offline_world_def at_index_def intros_def outros_def
        offline_script_def)

lemma offline_script_pieces: "length (split CHR '' '' offline_script) = 57"
  by code_simp

lemma offline_script_tokens: "length (whitespace_tokens offline_script) = 58"
  by code_simp

text \<open>
  C1 fails on the code. For the empty article list on the offline host the script has 58
  whitespace-delimited tokens, and the stage reports a word count of 57: it splits at
  single spaces, so the last word of the intro and the first word after the blank line
  count as one.
\<close>

theorem generateScript_word_count_misses_line_breaks:
  "map_of (details (last (steps (results (snd (generateScript [] offline_world))))))
       ''word_count'' = Some (DNum 57) \<and>
   length (whitespace_tokens (fst (generateScript [] offline_world))) = 58"
  by (simp add: generateScript_steps generateScript_offline offline_script_pieces
        offline_script_tokens)

text \<open>
  C10. For the empty article list, with both draws of \<open>Math.random\<close> in \<open>[0, 1)\<close>, the
  stage, called as a method of the class, returns a script and does not throw; the
  script is not empty and consists of one of the intros, a blank line, the fixed
  three-sentence filler passage and one of the outros; the stage appends exactly one step
  record, named \<open>Script Generation\<close>, with \<open>success\<close> true and \<open>segments\<close> 0.
\<close>

theorem generateScript_empty:
  assumes "0 \<le> random w (draws w)" "random w (draws w) < 1"
      and "0 \<le> random w (Suc (draws w))" "random w (Suc (draws w)) < 1"
  shows "m_generateScript SpacePipeline_stages [] w =
           (Inr (fst (generateScript [] w)), snd (generateScript [] w)) \<and>
         fst (generateScript [] w) \<noteq> [] \<and>
         (\<exists>intro outro. intro \<in> set intros \<and> outro \<in> set outros \<and>
             fst (generateScript [] w) = intro @ [newline, newline] @ filler @ outro) \<and>
         (\<exists>entry. steps (results (snd (generateScript [] w))) = steps (results w) @ [entry] \<and>
             step entry = ''Script Generation'' \<and> success entry \<and>
             map_of (details entry) ''segments'' = Some (DNum 0))"
proof -
  have i: "at_index intros \<lfloor>random w (draws w) * of_nat (length intros)\<rfloor> \<in> set intros"
    using assms(1,2) by (intro at_index_member) (simp_all add: intros_def)
  have o: "at_index outros \<lfloor>random w (Suc (draws w)) * of_nat (length outros)\<rfloor> \<in> set outros"
    using assms(3,4) by (intro at_index_member) (simp_all add: outros_def)
  have t: "fst (generateScript [] w) =
     at_index intros \<lfloor>random w (draws w) * of_nat (length intros)\<rfloor> @ [newline, newline] @
     filler @ at_index outros \<lfloor>random w (Suc (draws w)) * of_nat (length outros)\<rfloor>"
    by (simp add: generateScript_text)
  have s: "\<exists>entry. steps (results (snd (generateScript [] w))) = steps (results w) @ [entry] \<and>
                 step entry = ''Script Generation'' \<and> success entry \<and>
                 map_of (details entry) ''segments'' = Some (DNum 0)"
    by (simp add: generateScript_steps)
  have n: "fst (generateScript [] w) \<noteq> []"
    by (simp add: t)
  from i o t have "\<exists>intro outro. intro \<in> set intros \<and> outro \<in> set outros \<and>
             fst (generateScript [] w) = intro @ [newline, newline] @ filler @ outro"
    by blast
  moreover have "m_generateScript SpacePipeline_stages [] w =
           (Inr (fst (generateScript [] w)), snd (generateScript [] w))"
    by (simp add: SpacePipeline_stages_def returning_def case_prod_beta)
  ultimately show ?thesis using n s by blast
qed

theorem generateScript_empty_witness:
  "fst (m_generateScript SpacePipeline_stages [] offline_world) =
     Inr (fst (generateScript [] offline_world)) \<and>
   fst (generateScript [] offline_world) \<noteq> [] \<and>
   (\<exists>intro outro. intro \<in> set intros \<and> outro \<in> set outros \<and>
       fst (generateScript [] offline_world) = intro @ [newline, newline] @ filler @ outro) \<and>
   (\<exists>entry. steps (results (snd (generateScript [] offline_world))) = [entry] \<and>
       step entry = ''Script Generation'' \<and> success entry \<and>
       map_of (details entry) ''segments'' = Some (DNum 0))"
  using generateScript_empty [of offline_world]
  by (simp add: offline_world_def)

section \<open>Properties of the news stage\<close>

text \<open>The sort keeps the elements and orders them.\<close>

lemma length_insert_by [simp]: "length (insert_by cmp x ys) = Suc (length ys)"
  by (induction ys) simp_all

lemma mset_insert_by [simp]: "mset (insert_by cmp x ys) = add_mset x (mset ys)"
  by (induction ys) simp_all

lemma mset_sort_by [simp]: "mset (sort_by cmp xs) = mset xs"
  by (induction xs) (simp_all add: sort_by_def)

lemma length_sort_by [simp]: "length (sort_by cmp xs) = length xs"
  by (metis mset_sort_by size_mset)

lemma set_insert_by [simp]: "set (insert_by cmp x ys) = insert x (set ys)"
  by (metis mset_insert_by set_mset_add_mset_insert set_mset_mset)

lemma newest_first_insert_by:
  "sorted_wrt (\<lambda>a b. published b \<le> published a) ys \<Longrightarrow>
     sorted_wrt (\<lambda>a b. published b \<le> published a) (insert_by by_date x ys)"
  by (induction ys) (auto simp: by_date_def)

lemma newest_first_sort_by:
  "sorted_wrt (\<lambda>a b. published b \<le> published a) (sort_by by_date xs)"
proof (induction xs)
  case Nil
  show ?case by (simp add: sort_by_def)
next
  case (Cons x xs)
  then show ?case
    using newest_first_insert_by [of "sort_by by_date xs" x] by (simp add: sort_by_def)
qed

lemma length_fallbackNews: "length (fst (fallbackNews w)) = 3"
  by (simp add: fallbackNews_def now_def Let_def)

lemma fallbackNews_contents:
  "map (\<lambda>a. (title a, source a, url a)) (fst (fallbackNews w)) =
     [(''NASA Artemis Mission Achieves Major Milestone'', ''NASA News'',
       ''https://www.nasa.gov/artemis''),
      (''SpaceX Launches Advanced Satellite Constellation'', ''Space News'',
       ''https://www.spacex.com''),
      (''James Webb Telescope Discovers Distant Galaxy'', ''ESA Updates'',
       ''https://www.esa.int'')]"
  by (simp add: fallbackNews_def now_def Let_def)

lemma results_fallbackNews: "results (snd (fallbackNews w)) = results w"
  by (simp add: fallbackNews_def now_def Let_def)

lemma news_from_fallback_articles:
  "fst (news_from_fallback w) = sort_by by_date (fst (fallbackNews w))"
  by (simp add: news_from_fallback_def Let_def case_prod_beta length_fallbackNews)

lemma news_from_fallback_steps:
  "\<exists>entry. steps (results (snd (news_from_fallback w))) = steps (results w) @ [entry] \<and>
      step entry = ''News Collection'' \<and> success entry"
  by (simp add: news_from_fallback_def Let_def case_prod_beta results_fallbackNews)

lemma collectNews_rejected:
  "makeHttpRequest (news_service w) = Inl e \<Longrightarrow> collectNews w = news_from_fallback w"
  by (simp add: collectNews_def)

text \<open>
  C8. When the request to the news service is rejected, as it is for a 500 response,
  \<open>collectNews\<close> returns the three placeholder articles, ordered from the newest
  \<open>published\<close> time to the oldest, and appends one step record named
  \<open>News Collection\<close> whose \<open>success\<close> is true.
\<close>

theorem collectNews_falls_back:
  assumes "makeHttpRequest (news_service w) = Inl e"
  shows "length (fst (collectNews w)) = 3 \<and>
         mset (fst (collectNews w)) = mset (fst (fallbackNews w)) \<and>
         map (\<lambda>a. (title a, source a, url a)) (fst (fallbackNews w)) =
           [(''NASA Artemis Mission Achieves Major Milestone'', ''NASA News'',
             ''https://www.nasa.gov/artemis''),
            (''SpaceX Launches Advanced Satellite Constellation'', ''Space News'',
             ''https://www.spacex.com''),
            (''James Webb Telescope Discovers Distant Galaxy'', ''ESA Updates'',
             ''https://www.esa.int'')] \<and>
         sorted_wrt (\<lambda>a b. published b \<le> published a) (fst (collectNews w)) \<and>
         (\<exists>entry. steps (results (snd (collectNews w))) = steps (results w) @ [entry] \<and>
             step entry = ''News Collection'' \<and> success entry)"
proof -
  have c: "collectNews w = news_from_fallback w"
    using assms by (rule collectNews_rejected)
  have "length (fst (collectNews w)) = 3"
    by (simp add: c news_from_fallback_articles length_fallbackNews)
  moreover have "mset (fst (collectNews w)) = mset (fst (fallbackNews w))"
    by (simp add: c news_from_fallback_articles)
  moreover have "sorted_wrt (\<lambda>a b. published b \<le> published a) (fst (collectNews w))"
    using newest_first_sort_by [of "fst (fallbackNews w)"]
    by (simp add: c news_from_fallback_articles)
  moreover note fallbackNews_contents [of w] news_from_fallback_steps [of w]
  ultimately show ?thesis by (simp add: c)
qed

lemma offline_news_rejected:
  "makeHttpRequest (news_service offline_world) = Inl (Error ''HTTP 500: Internal Server Error'')"
  by (simp add: offline_world_def http_error_def show_nat_500)

lemma offline_news_titles:
  "map title (fst (collectNews offline_world)) =
     [''James Webb Telescope Discovers Distant Galaxy'',
      ''SpaceX Launches Advanced Satellite Constellation'',
      ''NASA Artemis Mission Achieves Major Milestone'']"
  by (simp add: collectNews_rejected [OF offline_news_rejected] news_from_fallback_articles)
     (simp add: fallbackNews_def now_def offline_world_def sort_by_def by_date_def Let_def)

theorem collectNews_falls_back_witness:
  "makeHttpRequest (news_service offline_world) = Inl (Error ''HTTP 500: Internal Server Error'') \<and>
   map title (fst (collectNews offline_world)) =
     [''James Webb Telescope Discovers Distant Galaxy'',
      ''SpaceX Launches Advanced Satellite Constellation'',
      ''NASA Artemis Mission Achieves Major Milestone''] \<and>
   length (fst (collectNews offline_world)) = 3 \<and>
   sorted_wrt (\<lambda>a b. published b \<le> published a) (fst (collectNews offline_world)) \<and>
   (\<exists>entry. steps (results (snd (collectNews offline_world))) = [entry] \<and>
       step entry = ''News Collection'' \<and> success entry)"
proof -
  note fact = collectNews_falls_back [OF offline_news_rejected]
  have empty: "steps (results offline_world) = []"
    by (simp add: offline_world_def)
  have "\<exists>entry. steps (results (snd (collectNews offline_world))) =
            steps (results offline_world) @ [entry] \<and>
          step entry = ''News Collection'' \<and> success entry"
    by (rule fact [THEN conjunct2, THEN conjunct2, THEN conjunct2, THEN conjunct2])
  then have "\<exists>entry. steps (results (snd (collectNews offline_world))) = [entry] \<and>
          step entry = ''News Collection'' \<and> success entry"
    by (simp only: empty append_Nil)
  moreover have "length (fst (collectNews offline_world)) = 3"
    by (rule fact [THEN conjunct1])
  moreover have
    "sorted_wrt (\<lambda>a b. published b \<le> published a) (fst (collectNews offline_world))"
    by (rule fact [THEN conjunct2, THEN conjunct2, THEN conjunct2, THEN conjunct1])
  ultimately show ?thesis
    using offline_news_rejected offline_news_titles by blast
qed

section \<open>Properties of the media stage\<close>

lemma push_pexels_extends:
  "\<exists>new. fst (push_pexels photos mediaItems) = mediaItems @ new \<and>
         (\<forall>m \<in> set new. media_source m = ''pexels'')"
proof (induction photos mediaItems rule: push_pexels.induct)
  case (1 mediaItems)
  show ?case by simp
next
  case (2 rest mediaItems)
  show ?case by simp
next
  case (3 photo rest mediaItems)
  show ?case
  proof (cases "src_large photo")
    case None
    then show ?thesis by simp
  next
    case (Some large)
    let ?item = "\<lparr>media_url = large, media_source = ''pexels'', media_type = ''image'',
                 photographer = photo_photographer photo,
                 alt = or_default (photo_alt photo) ''Space image''\<rparr>"
    from 3 Some obtain new where
      n: "fst (push_pexels rest (mediaItems @ [?item])) = (mediaItems @ [?item]) @ new"
      and s: "\<forall>m \<in> set new. media_source m = ''pexels''"
      by blast
    have "fst (push_pexels (Some photo # rest) mediaItems) = mediaItems @ (?item # new)"
      using Some n by simp
    moreover have "\<forall>m \<in> set (?item # new). media_source m = ''pexels''"
      using s by simp
    ultimately show ?thesis by blast
  qed
qed

lemma pexels_items_source:
  "\<forall>m \<in> set (fst (pexels_items w)). media_source m = ''pexels''"
proof -
  have "\<And>photos. \<forall>m \<in> set (fst (push_pexels photos [])). media_source m = ''pexels''"
    using push_pexels_extends [of _ "[]"] by (metis append_Nil)
  then show ?thesis
    by (simp add: pexels_items_def split: sum.splits body.splits jvalue.splits jlist.splits)
qed

lemma length_curated [simp]: "length (curated flag index urls) = length urls"
  by (induction urls arbitrary: index) simp_all

lemma curated_source:
  "\<forall>m \<in> set (curated flag index urls).
      media_source m = ''curated'' \<or> media_source m = ''simulated''"
  by (induction urls arbitrary: index) simp_all

lemma collectMedia_items:
  "fst (collectMedia w) =
     (if length (fst (pexels_items w)) < 5
      then fst (pexels_items w) @ curated (snd (pexels_items w)) 0 simulatedImages
      else fst (pexels_items w))"
  by (simp add: collectMedia_def Let_def case_prod_beta)

text \<open>
  C2 (as amended). The later \<open>collectMedia\<close> returns at least five items: the items
  pushed from Pexels, in the order pushed and including those pushed before a malformed
  photo stopped the loop, followed by padding. The padding is empty when five or more
  were pushed and is otherwise the five fixed images, each marked \<open>curated\<close> or
  \<open>simulated\<close>; the pushed items are marked \<open>pexels\<close>.
\<close>

theorem collectMedia_threshold:
  "5 \<le> length (fst (collectMedia w)) \<and>
   (\<forall>m \<in> set (fst (pexels_items w)). media_source m = ''pexels'') \<and>
   (\<exists>padding. fst (collectMedia w) = fst (pexels_items w) @ padding \<and>
      (\<forall>m \<in> set padding. media_source m = ''curated'' \<or> media_source m = ''simulated'') \<and>
      (length (fst (pexels_items w)) < 5 \<longrightarrow> length padding = 5) \<and>
      (5 \<le> length (fst (pexels_items w)) \<longrightarrow> padding = []))"
proof (cases "length (fst (pexels_items w)) < 5")
  case True
  let ?padding = "curated (snd (pexels_items w)) 0 simulatedImages"
  have "fst (collectMedia w) = fst (pexels_items w) @ ?padding"
    using True by (simp add: collectMedia_items)
  moreover have "length ?padding = 5"
    by (simp add: simulatedImages_def)
  moreover note curated_source [of "snd (pexels_items w)" 0 simulatedImages]
    pexels_items_source [of w]
  ultimately show ?thesis using True by auto
next
  case False
  then have "fst (collectMedia w) = fst (pexels_items w) @ []"
    by (simp add: collectMedia_items)
  with False pexels_items_source [of w] show ?thesis by auto
qed

lemma pexels_world_items:
  "fst (pexels_items pexels_world) =
     [\<lparr>media_url = Some ''https://images.pexels.com/photos/1/large.jpg'',
       media_source = ''pexels'', media_type = ''image'',
       photographer = Some ''Ada'', alt = ''Milky Way''\<rparr>]"
  by (simp add: pexels_items_def pexels_world_def offline_world_def or_default_def)

lemma pexels_world_sources:
  "map media_source (fst (collectMedia pexels_world)) =
     [''pexels'', ''simulated'', ''simulated'', ''simulated'', ''simulated'', ''simulated'']"
  by (simp add: collectMedia_items pexels_world_items)
     (simp add: pexels_items_def pexels_world_def offline_world_def simulatedImages_def)

theorem collectMedia_threshold_witness:
  "length (fst (pexels_items pexels_world)) = 1 \<and>
   length (fst (collectMedia pexels_world)) = 6 \<and>
   take 1 (fst (collectMedia pexels_world)) = fst (pexels_items pexels_world) \<and>
   map media_source (fst (collectMedia pexels_world)) =
     [''pexels'', ''simulated'', ''simulated'', ''simulated'', ''simulated'', ''simulated'']"
proof -
  from collectMedia_threshold [of pexels_world] obtain padding where
    p: "fst (collectMedia pexels_world) = fst (pexels_items pexels_world) @ padding"
    and l: "length (fst (pexels_items pexels_world)) < 5 \<longrightarrow> length padding = 5"
    by blast
  have one: "length (fst (pexels_items pexels_world)) = 1"
    by (simp add: pexels_world_items)
  with l have "length padding = 5" by simp
  with p one have "length (fst (collectMedia pexels_world)) = 6 \<and>
      take 1 (fst (collectMedia pexels_world)) = fst (pexels_items pexels_world)"
    by simp
  with one pexels_world_sources show ?thesis by blast
qed

text \<open>
  C2 as stated fails on the earlier \<open>collectMedia\<close>, which has no threshold: without
  credentials it returns the three NASA images alone.
\<close>

theorem collectMedia_v1_below_threshold:
  "map_option (\<lambda>r. map media_source (fst r)) (collectMedia_v1 offline_world) =
     Some [''nasa'', ''nasa'', ''nasa'']"
  by (simp add: collectMedia_v1_def pexels_items_v1_def unsplash_items_v1_def offline_world_def
        nasaImages_def Let_def)

section \<open>Properties of the orchestrator\<close>

lemma failed_record:
  "results (failed e w) =
     (results w)\<lparr>status := ''failed'', error := Some (message e),
        steps := steps (results w) @
          [\<lparr>step = ''Pipeline Execution'', timestamp = clock w (reads w), success = False,
            details = [(''error'', DStr (message e))]\<rparr>]\<rparr>"
  by (simp add: failed_def logStep_def now_def Let_def)

lemma failed_persisted: "pipeline_results_json (failed e w) = Some (results (failed e w))"
  by (simp add: failed_def Let_def)

text \<open>The \<open>try\<close> block throws exactly when a stage throws after the stages before it
  have returned: it then ends with the error and the world of that stage.\<close>

lemma attempt_throws_iff:
  "attempt this False w = (Inl e, w') \<longleftrightarrow>
     m_validateEnvironment this w = (Inl e, w') \<or>
     (\<exists>envValid w1. m_validateEnvironment this w = (Inr envValid, w1) \<and>
        (m_collectNews this w1 = (Inl e, w') \<or>
         (\<exists>articles w2. m_collectNews this w1 = (Inr articles, w2) \<and>
            (m_generateScript this articles w2 = (Inl e, w') \<or>
             (\<exists>text w3. m_generateScript this articles w2 = (Inr text, w3) \<and>
                (m_collectMedia this w3 = (Inl e, w') \<or>
                 (\<exists>media w4. m_collectMedia this w3 = (Inr media, w4) \<and>
                    (m_generateTTS this text w4 = (Inl e, w') \<or>
                     (\<exists>aud w5. m_generateTTS this text w4 = (Inr aud, w5) \<and>
                        m_produceVideo this text media aud w5 = (Inl e, w'))))))))))"
  by (auto simp: attempt_def and_then_def split: prod.splits sum.splits)

lemma attempt_health_throws_iff:
  "attempt this True w = (Inl e, w') \<longleftrightarrow> m_healthCheck this w = (Inl e, w')"
  by (auto simp: attempt_def and_then_def split: prod.splits sum.splits)

text \<open>
  C4. When the \<open>try\<close> block throws \<open>e\<close>, which only a stage can make it do, and
  leaves the world \<open>w1\<close>, \<open>runPipeline\<close> throws the same \<open>e\<close> after it has set the
  status to \<open>failed\<close>, stored the message of \<open>e\<close> in \<open>error\<close>, appended the
  \<open>Pipeline Execution\<close> step to the steps logged so far and written the record, as it
  then stands, to \<open>pipeline_results.json\<close>.
\<close>

theorem runPipeline_failure:
  assumes "attempt this healthCheckOnly w = (Inl e, w1)"
  shows "\<exists>w'. runPipeline this healthCheckOnly w = (Inl e, w') \<and>
           status (results w') = ''failed'' \<and>
           error (results w') = Some (message e) \<and>
           steps (results w') = steps (results w1) @
             [\<lparr>step = ''Pipeline Execution'', timestamp = clock w1 (reads w1), success = False,
               details = [(''error'', DStr (message e))]\<rparr>] \<and>
           workflow_id (results w') = workflow_id (results w1) \<and>
           start_time (results w') = start_time (results w1) \<and>
           pipeline_results_json w' = Some (results w')"
proof -
  have "runPipeline this healthCheckOnly w = (Inl e, failed e w1)"
    using assms by (simp add: runPipeline_def)
  then show ?thesis
    by (simp add: failed_record failed_persisted)
qed

lemma and_then_returning:
  "and_then (returning f) g w = g (fst (f w)) (snd (f w))"
  by (simp add: and_then_def returning_def case_prod_beta)

lemma attempt_throwing:
  "attempt throwing_stages False w =
     (Inl (Error ''Cannot convert object to primitive value''),
      snd (collectNews (snd (validateEnvironment w))))"
  by (simp add: attempt_def throwing_stages_def SpacePipeline_stages_def and_then_returning)
    (simp add: and_then_def)

text \<open>The steps logged on the offline host before the script stage throws.\<close>

lemma steps_SpacePipeline: "steps (results (SpacePipeline w)) = []"
  by (simp add: SpacePipeline_def now_def Let_def)

lemma news_service_SpacePipeline: "news_service (SpacePipeline w) = news_service w"
  by (simp add: SpacePipeline_def now_def Let_def)

lemma news_service_validateEnvironment:
  "news_service (snd (validateEnvironment w)) = news_service w"
  by (simp add: validateEnvironment_def Let_def logStep_def now_def)

lemma validateEnvironment_step:
  "map step (steps (results (snd (validateEnvironment w)))) =
     map step (steps (results w)) @ [''Environment Validation'']"
  by (simp add: validateEnvironment_def Let_def)

lemma collectNews_step_rejected:
  assumes "makeHttpRequest (news_service w) = Inl e"
  shows "map step (steps (results (snd (collectNews w)))) =
           map step (steps (results w)) @ [''News Collection'']"
  using news_from_fallback_steps [of w] by (auto simp: collectNews_rejected [OF assms])

lemma throwing_run_steps:
  "map step (steps (results
      (snd (collectNews (snd (validateEnvironment (SpacePipeline offline_world))))))) =
     [''Environment Validation'', ''News Collection'']"
proof -
  have "makeHttpRequest (news_service (snd (validateEnvironment (SpacePipeline offline_world)))) =
          Inl (Error ''HTTP 500: Internal Server Error'')"
    by (simp only: news_service_validateEnvironment news_service_SpacePipeline
          offline_news_rejected)
  from collectNews_step_rejected [OF this] show ?thesis
    by (simp add: validateEnvironment_step steps_SpacePipeline)
qed

theorem runPipeline_failure_witness:
  "fst (runPipeline throwing_stages False (SpacePipeline offline_world)) =
     Inl (Error ''Cannot convert object to primitive value'') \<and>
   status (results (snd (runPipeline throwing_stages False (SpacePipeline offline_world)))) =
     ''failed'' \<and>
   error (results (snd (runPipeline throwing_stages False (SpacePipeline offline_world)))) =
     Some ''Cannot convert object to primitive value'' \<and>
   map step
     (steps (results (snd (runPipeline throwing_stages False (SpacePipeline offline_world))))) =
     [''Environment Validation'', ''News Collection'', ''Pipeline Execution''] \<and>
   pipeline_results_json (snd (runPipeline throwing_stages False (SpacePipeline offline_world))) =
     Some (results (snd (runPipeline throwing_stages False (SpacePipeline offline_world))))"
  using runPipeline_failure [OF attempt_throwing [of "SpacePipeline offline_world"]]
    throwing_run_steps
  by auto

lemma logs_onlyD:
  assumes "logs_only act" "act w = (res, w')"
  shows "status (results w') = status (results w) \<and>
         error (results w') = error (results w) \<and>
         final_outputs (results w') = final_outputs (results w)"
proof -
  from assms(1) obtain new where
    "results (snd (act w)) = (results w)\<lparr>steps := steps (results w) @ new\<rparr>"
    unfolding logs_only_def by blast
  with assms(2) show ?thesis by simp
qed

lemma unfinished_kept:
  "logs_only act \<Longrightarrow> act w = (res, w') \<Longrightarrow> unfinished (results w) \<Longrightarrow> unfinished (results w')"
  using logs_onlyD [of act w res w'] by (simp add: unfinished_def)

lemma complete_record:
  "complete text media aud vid w = (r, w') \<Longrightarrow>
     status r = ''completed'' \<and> final_outputs r \<noteq> None \<and> error r = error (results w) \<and>
     results w' = r \<and> pipeline_results_json w' = Some r"
  by (auto simp: complete_def now_def Let_def)

lemma valid_and_then:
  assumes "valid P m Q E" and "\<And>x. valid (Q x) (f x) R E"
  shows "valid P (and_then m f) R E"
  unfolding valid_def
proof (intro allI impI)
  fix w
  assume p: "P w"
  obtain res w' where m: "m w = (res, w')" by (cases "m w")
  show "case and_then m f w of (Inl e, w') \<Rightarrow> E w' | (Inr x, w') \<Rightarrow> R x w'"
  proof (cases res)
    case (Inl e)
    with assms(1) p m show ?thesis by (auto simp: valid_def and_then_def)
  next
    case (Inr x)
    with assms(1) p m have "Q x w'" by (auto simp: valid_def)
    with assms(2) [of x] have "case f x w' of (Inl e, w'') \<Rightarrow> E w'' | (Inr y, w'') \<Rightarrow> R y w''"
      by (simp add: valid_def)
    with m Inr show ?thesis by (simp add: and_then_def)
  qed
qed

lemma valid_logs_only:
  assumes "logs_only act"
  shows "valid (\<lambda>w. unfinished (results w)) act (\<lambda>x w. unfinished (results w))
           (\<lambda>w. unfinished (results w))"
  unfolding valid_def
proof (intro allI impI)
  fix w :: world
  assume u: "unfinished (results w)"
  obtain res w' where a: "act w = (res, w')" by (cases "act w")
  from unfinished_kept [OF assms a u] a
  show "case act w of (Inl e, w') \<Rightarrow> unfinished (results w')
        | (Inr x, w') \<Rightarrow> unfinished (results w')"
    by (cases res) simp_all
qed

lemma valid_complete:
  "valid (\<lambda>w. unfinished (results w))
     (\<lambda>w. case complete text media aud vid w of (r, w') \<Rightarrow> (Inr (Results r), w'))
     finished (\<lambda>w. unfinished (results w))"
  unfolding valid_def
proof (intro allI impI)
  fix w :: world
  assume u: "unfinished (results w)"
  obtain r w' where c: "complete text media aud vid w = (r, w')"
    by (cases "complete text media aud vid w")
  from complete_record [OF c] u have "finished (Results r) w'"
    by (simp add: finished_def unfinished_def)
  with c show "case (case complete text media aud vid w of (r, w') \<Rightarrow> (Inr (Results r), w')) of
          (Inl e, w') \<Rightarrow> unfinished (results w') | (Inr x, w') \<Rightarrow> finished x w'"
    by simp
qed

lemma valid_attempt:
  assumes d: "disciplined this"
  shows "valid (\<lambda>w. unfinished (results w)) (attempt this healthCheckOnly) finished
           (\<lambda>w. unfinished (results w))"
proof (cases healthCheckOnly)
  case True
  have "valid (\<lambda>w. unfinished (results w))
          (and_then (m_healthCheck this) (\<lambda>healthy w. (Inr (Health healthy), w)))
          finished (\<lambda>w. unfinished (results w))"
  proof (rule valid_and_then)
    show "valid (\<lambda>w. unfinished (results w)) (m_healthCheck this)
            (\<lambda>x w. unfinished (results w)) (\<lambda>w. unfinished (results w))"
      using d by (intro valid_logs_only) (simp add: disciplined_def)
  next
    fix healthy
    show "valid (\<lambda>w. unfinished (results w)) (\<lambda>w. (Inr (Health healthy), w)) finished
            (\<lambda>w. unfinished (results w))"
      by (simp add: valid_def finished_def)
  qed
  with True show ?thesis by (simp add: attempt_def)
next
  case False
  have stage: "\<And>act. logs_only act \<Longrightarrow>
      valid (\<lambda>w. unfinished (results w)) act (\<lambda>x w. unfinished (results w))
        (\<lambda>w. unfinished (results w))"
    by (rule valid_logs_only)
  from d have l:
    "logs_only (m_validateEnvironment this)" "logs_only (m_collectNews this)"
    "\<And>articles. logs_only (m_generateScript this articles)"
    "logs_only (m_collectMedia this)"
    "\<And>text. logs_only (m_generateTTS this text)"
    "\<And>text media aud. logs_only (m_produceVideo this text media aud)"
    by (simp_all add: disciplined_def)
  show ?thesis
    unfolding attempt_def using False
    by (simp only: if_False)
       (intro valid_and_then [where Q = "\<lambda>x w. unfinished (results w)"] stage l valid_complete)
qed

lemma attempt_outcome:
  assumes "disciplined this" "unfinished (results w)"
      and "attempt this healthCheckOnly w = (res, w1)"
  shows "case res of Inl e \<Rightarrow> unfinished (results w1) | Inr ok \<Rightarrow> finished ok w1"
  using valid_attempt [OF assms(1), of healthCheckOnly] assms(2,3)
  by (auto simp: valid_def split: sum.splits)

lemma unfinished_new: "unfinished (results (SpacePipeline w))"
  by (simp add: SpacePipeline_def now_def Let_def unfinished_def)

text \<open>
  C7. For a new pipeline object whose stages only log: a run that returns its record
  has status \<open>completed\<close>, final outputs and no error; a run that throws leaves a
  record with status \<open>failed\<close> and the error message; both are the record written
  to \<open>pipeline_results.json\<close>. Whatever the run does, a final record with status
  \<open>completed\<close> has final outputs and no error, and one with status \<open>failed\<close> has an
  error.
\<close>

theorem run_record_invariant:
  assumes "disciplined this"
  shows "(\<forall>r w'. runPipeline this healthCheckOnly (SpacePipeline w) = (Inr (Results r), w') \<longrightarrow>
            status r = ''completed'' \<and> final_outputs r \<noteq> None \<and> error r = None \<and>
            results w' = r \<and> pipeline_results_json w' = Some r) \<and>
         (\<forall>e w'. runPipeline this healthCheckOnly (SpacePipeline w) = (Inl e, w') \<longrightarrow>
            status (results w') = ''failed'' \<and> error (results w') = Some (message e) \<and>
            pipeline_results_json w' = Some (results w')) \<and>
         (status (results (snd (runPipeline this healthCheckOnly (SpacePipeline w)))) =
            ''completed'' \<longrightarrow>
            final_outputs (results (snd (runPipeline this healthCheckOnly (SpacePipeline w))))
              \<noteq> None \<and>
            error (results (snd (runPipeline this healthCheckOnly (SpacePipeline w)))) = None) \<and>
         (status (results (snd (runPipeline this healthCheckOnly (SpacePipeline w)))) =
            ''failed'' \<longrightarrow>
            error (results (snd (runPipeline this healthCheckOnly (SpacePipeline w)))) \<noteq> None)"
proof -
  obtain res w1 where a: "attempt this healthCheckOnly (SpacePipeline w) = (res, w1)"
    by (cases "attempt this healthCheckOnly (SpacePipeline w)")
  note o = attempt_outcome [OF assms unfinished_new a]
  show ?thesis
  proof (cases res)
    case (Inl e)
    then have "runPipeline this healthCheckOnly (SpacePipeline w) = (Inl e, failed e w1)"
      using a by (simp add: runPipeline_def)
    then show ?thesis
      by (simp add: failed_record failed_persisted)
  next
    case (Inr ok)
    then have r: "runPipeline this healthCheckOnly (SpacePipeline w) = (Inr ok, w1)"
      using a by (simp add: runPipeline_def)
    show ?thesis
    proof (cases ok)
      case (Health healthy)
      with o Inr r show ?thesis by (simp add: unfinished_def finished_def)
    next
      case (Results rec)
      with o Inr r show ?thesis by (simp add: finished_def)
    qed
  qed
qed


lemma results_logStep:
  "results (logStep name ok det w) =
     (results w)\<lparr>steps := steps (results w) @
        [\<lparr>step = name, timestamp = clock w (reads w), success = ok, details = det\<rparr>]\<rparr>"
  by (simp add: logStep_def now_def)

lemma appended [simp]:
  "\<exists>new. (r :: run_record)\<lparr>steps := steps r @ [e]\<rparr> = r\<lparr>steps := steps r @ new\<rparr>"
  by blast

lemma unchanged [simp]: "\<exists>new. (r :: run_record) = r\<lparr>steps := steps r @ new\<rparr>"
  by (rule exI [of _ "[]"]) simp

lemma logs_only_returning:
  assumes "\<And>w. \<exists>new. results (snd (f w)) = (results w)\<lparr>steps := steps (results w) @ new\<rparr>"
  shows "logs_only (returning f)"
  using assms by (simp add: logs_only_def returning_def case_prod_beta)

lemma validateEnvironment_logs:
  "\<exists>new. results (snd (validateEnvironment w)) = (results w)\<lparr>steps := steps (results w) @ new\<rparr>"
  by (simp add: validateEnvironment_def Let_def results_logStep)

lemma healthCheck_logs:
  "\<exists>new. results (snd (healthCheck w)) = (results w)\<lparr>steps := steps (results w) @ new\<rparr>"
  using validateEnvironment_logs [of w] by (simp add: healthCheck_def Let_def case_prod_beta)

lemma results_toArticles: "results (snd (toArticles items w)) = results w"
  by (induction items w rule: toArticles.induct)
     (simp_all add: now_def Let_def case_prod_beta split: option.splits prod.splits)

lemma news_from_fallback_logs:
  "\<exists>new. results (snd (news_from_fallback w)) = (results w)\<lparr>steps := steps (results w) @ new\<rparr>"
  by (simp add: news_from_fallback_def Let_def case_prod_beta results_logStep results_fallbackNews)

lemma news_from_service_logs:
  "\<exists>new. results (snd (news_from_service converted w)) =
      (results w)\<lparr>steps := steps (results w) @ new\<rparr>"
  by (simp add: news_from_service_def Let_def results_logStep)

lemma collectNews_logs:
  "\<exists>new. results (snd (collectNews w)) = (results w)\<lparr>steps := steps (results w) @ new\<rparr>"
proof -
  have "\<And>items. \<exists>new. results (snd (news_from_fallback (snd (toArticles items w)))) =
          (results w)\<lparr>steps := steps (results w) @ new\<rparr>"
    using news_from_fallback_logs results_toArticles by metis
  moreover have "\<And>items converted.
      \<exists>new. results (snd (news_from_service converted (snd (toArticles items w)))) =
          (results w)\<lparr>steps := steps (results w) @ new\<rparr>"
    using news_from_service_logs results_toArticles by metis
  ultimately show ?thesis
    using news_from_fallback_logs [of w] news_from_service_logs [of "[]" w]
    by (auto simp: collectNews_def
          split: sum.splits body.splits jvalue.splits jlist.splits prod.splits option.splits)
      (metis snd_conv)+
qed

lemma generateScript_logs:
  "\<exists>new. results (snd (generateScript articles w)) =
      (results w)\<lparr>steps := steps (results w) @ new\<rparr>"
  by (simp add: generateScript_def Let_def math_random_def results_logStep)

lemma collectMedia_logs:
  "\<exists>new. results (snd (collectMedia w)) = (results w)\<lparr>steps := steps (results w) @ new\<rparr>"
  by (simp add: collectMedia_def Let_def case_prod_beta results_logStep)

lemma generateTTS_logs:
  "\<exists>new. results (snd (generateTTS text w)) = (results w)\<lparr>steps := steps (results w) @ new\<rparr>"
  by (simp add: generateTTS_def Let_def math_random_def results_logStep)

lemma produceVideo_logs:
  "\<exists>new. results (snd (produceVideo text media aud w)) =
      (results w)\<lparr>steps := steps (results w) @ new\<rparr>"
  by (simp add: produceVideo_def Let_def results_logStep)

lemma disciplined_SpacePipeline: "disciplined SpacePipeline_stages"
  by (simp add: disciplined_def SpacePipeline_stages_def logs_only_returning
        validateEnvironment_logs collectNews_logs generateScript_logs collectMedia_logs
        generateTTS_logs produceVideo_logs healthCheck_logs)

lemma disciplined_throwing: "disciplined throwing_stages"
  using disciplined_SpacePipeline
  by (simp add: disciplined_def throwing_stages_def logs_only_def)

lemma status_complete: "status (fst (complete text media aud vid w)) = ''completed''"
  by (simp add: complete_def now_def Let_def)

text \<open>The stages of the class never throw, so its run always returns a completed
  record.\<close>

lemma attempt_SpacePipeline:
  "\<exists>r w'. attempt SpacePipeline_stages False w = (Inr (Results r), w') \<and>
      status r = ''completed''"
  by (simp add: attempt_def SpacePipeline_stages_def and_then_returning case_prod_beta
        status_complete)

lemma runPipeline_SpacePipeline:
  "\<exists>r w'. runPipeline SpacePipeline_stages False w = (Inr (Results r), w') \<and>
      status r = ''completed''"
  using attempt_SpacePipeline [of w] by (auto simp: runPipeline_def)

theorem run_record_invariant_witness:
  "status (results (snd (runPipeline SpacePipeline_stages False (SpacePipeline offline_world)))) =
     ''completed'' \<and>
   final_outputs (results (snd (runPipeline SpacePipeline_stages False
     (SpacePipeline offline_world)))) \<noteq> None \<and>
   error (results (snd (runPipeline SpacePipeline_stages False (SpacePipeline offline_world)))) =
     None \<and>
   status (results (snd (runPipeline throwing_stages False (SpacePipeline offline_world)))) =
     ''failed'' \<and>
   error (results (snd (runPipeline throwing_stages False (SpacePipeline offline_world)))) =
     Some ''Cannot convert object to primitive value''"
proof -
  obtain r w' where
    ok: "runPipeline SpacePipeline_stages False (SpacePipeline offline_world) = (Inr (Results r), w')"
    using runPipeline_SpacePipeline by blast
  have bad: "runPipeline throwing_stages False (SpacePipeline offline_world) =
      (Inl (Error ''Cannot convert object to primitive value''),
       failed (Error ''Cannot convert object to primitive value'')
         (snd (collectNews (snd (validateEnvironment (SpacePipeline offline_world))))))"
    by (simp add: runPipeline_def attempt_throwing)
  from run_record_invariant [OF disciplined_SpacePipeline, of False offline_world] ok
  have "status r = ''completed'' \<and> final_outputs r \<noteq> None \<and> error r = None \<and> results w' = r"
    by simp
  moreover
  from run_record_invariant [OF disciplined_throwing, of False offline_world] bad
  have "status (results (snd (runPipeline throwing_stages False (SpacePipeline offline_world)))) =
          ''failed'' \<and>
        error (results (snd (runPipeline throwing_stages False (SpacePipeline offline_world)))) =
          Some ''Cannot convert object to primitive value''"
    by simp
  ultimately show ?thesis using ok by simp
qed


section \<open>Properties of the scheduled run\<close>

lemma last_run_json_logStep [simp]: "last_run_json (logStep name ok det w) = last_run_json w"
  by (simp add: logStep_def now_def)

lemma last_run_json_SpacePipeline [simp]: "last_run_json (SpacePipeline w) = last_run_json w"
  by (simp add: SpacePipeline_def now_def Let_def)

lemma last_run_json_validateEnvironment [simp]:
  "last_run_json (snd (validateEnvironment w)) = last_run_json w"
  by (simp add: validateEnvironment_def Let_def)

lemma last_run_json_toArticles [simp]: "last_run_json (snd (toArticles items w)) = last_run_json w"
  by (induction items w rule: toArticles.induct)
     (simp_all add: now_def Let_def case_prod_beta split: option.splits prod.splits)

lemma last_run_json_news_from_fallback [simp]:
  "last_run_json (snd (news_from_fallback w)) = last_run_json w"
  by (simp add: news_from_fallback_def fallbackNews_def now_def Let_def)

lemma last_run_json_news_from_service [simp]:
  "last_run_json (snd (news_from_service converted w)) = last_run_json w"
  by (simp add: news_from_service_def Let_def)

lemma last_run_json_collectNews [simp]: "last_run_json (snd (collectNews w)) = last_run_json w"
  by (simp add: collectNews_def case_prod_beta
        split: sum.splits body.splits jvalue.splits jlist.splits option.splits)

lemma last_run_json_failed [simp]: "last_run_json (failed e w) = last_run_json w"
  by (simp add: failed_def Let_def)

lemma last_run_json_shouldRunNow [simp]: "last_run_json (snd (shouldRunNow w)) = last_run_json w"
  by (simp add: shouldRunNow_def now_def Let_def
        split: last_run_info.splits option.splits)

text \<open>Whatever the stages are, a run that throws ends the scheduled invocation in the
  world the pipeline left: \<open>saveLastRun\<close> is not executed.\<close>

lemma scheduled_run_throws:
  assumes "shouldRunNow w = (True, w1)"
      and "runPipeline pipeline False (SpacePipeline w1) = (Inl e, w2)"
  shows "runScheduledVideoGeneration pipeline w = w2"
  using assms by (simp add: runScheduledVideoGeneration_def)

lemma scheduled_throwing:
  assumes "fst (shouldRunNow w)"
  shows "runScheduledVideoGeneration throwing_stages w =
           failed (Error ''Cannot convert object to primitive value'')
             (snd (collectNews (snd (validateEnvironment
                (SpacePipeline (snd (shouldRunNow w)))))))"
proof -
  from assms obtain w1 where "shouldRunNow w = (True, w1)"
    by (cases "shouldRunNow w") simp
  then show ?thesis
    by (simp add: runScheduledVideoGeneration_def runPipeline_def attempt_throwing)
qed

lemma stale_run_passes_gate: "fst (shouldRunNow (world_after_run ''completed'' 180))"
  by (simp add: shouldRunNow_def getLastRunInfo_def world_after_run_def offline_world_def
        now_def twoHours_def)

text \<open>
  C6 fails on the code. \<open>runPipeline\<close> throws again after it has persisted a failed
  run, so the scheduler's \<open>saveLastRun\<close>, which follows the \<open>await\<close> inside the same
  \<open>try\<close> block, is skipped. With a state file three hours old and a run that fails,
  the state file still holds the old record, while \<open>pipeline_results.json\<close> holds the
  failed run.
\<close>

theorem failed_run_not_recorded:
  "last_run_json (runScheduledVideoGeneration throwing_stages (world_after_run ''completed'' 180)) =
     Stored \<lparr>last_timestamp = Some (1700000000000 - 180 * 60 * 1000),
             last_status = Some ''completed'',
             last_duration = None,
             last_video_url = None\<rparr> \<and>
   map_option status
     (pipeline_results_json
        (runScheduledVideoGeneration throwing_stages (world_after_run ''completed'' 180))) =
     Some ''failed''"
  by (simp add: scheduled_throwing [OF stale_run_passes_gate] failed_persisted failed_record)
     (simp add: world_after_run_def)

text \<open>The sibling path: a run that returns is recorded.\<close>

lemma scheduled_SpacePipeline:
  assumes "fst (shouldRunNow w)"
  shows "\<exists>lastRun. last_run_json (runScheduledVideoGeneration SpacePipeline_stages w) =
           Stored lastRun \<and> last_status lastRun = Some ''completed''"
proof -
  from assms obtain w1 where g: "shouldRunNow w = (True, w1)"
    by (cases "shouldRunNow w") simp
  obtain r w' where
    "runPipeline SpacePipeline_stages False (SpacePipeline w1) = (Inr (Results r), w')"
    and "status r = ''completed''"
    using runPipeline_SpacePipeline by blast
  with g show ?thesis
    by (simp add: runScheduledVideoGeneration_def saveLastRun_def now_def Let_def)
qed

end
